theory Spec2Isabelle
  imports Complex_Main "HOL-Library.Multiset" "HOL-Library.Char_ord" "HOL-Library.List_Lexorder"
begin

section \<open>Text: the string operations the handlers use\<close>

text \<open>
  Message text is a \<open>string\<close>, read as ASCII: the letters \<open>A\<close>..\<open>Z\<close> and \<open>a\<close>..\<open>z\<close> are the
  cased characters, \<open>0\<close>..\<open>9\<close> the digits, and the white space is what \<^verbatim>\<open>str.split()\<close>
  takes as such below code 128 (codes 9 to 13 and 28 to 32). Any other character is
  caseless, and neither a digit nor white space.
\<close>

definition is_upper :: "char \<Rightarrow> bool" where
  "is_upper c = (65 \<le> (of_char c :: nat) \<and> (of_char c :: nat) \<le> 90)"

definition is_lower :: "char \<Rightarrow> bool" where
  "is_lower c = (97 \<le> (of_char c :: nat) \<and> (of_char c :: nat) \<le> 122)"

definition is_digit :: "char \<Rightarrow> bool" where
  "is_digit c = (48 \<le> (of_char c :: nat) \<and> (of_char c :: nat) \<le> 57)"

definition is_space :: "char \<Rightarrow> bool" where
  "is_space c = ((9 \<le> (of_char c :: nat) \<and> (of_char c :: nat) \<le> 13)
                 \<or> (28 \<le> (of_char c :: nat) \<and> (of_char c :: nat) \<le> 32))"

definition char_lower :: "char \<Rightarrow> char" where
  "char_lower c = (if is_upper c then char_of ((of_char c :: nat) + 32) else c)"

definition char_upper :: "char \<Rightarrow> char" where
  "char_upper c = (if is_lower c then char_of ((of_char c :: nat) - 32) else c)"

text \<open>\<^verbatim>\<open>s.lower()\<close>\<close>

definition lower :: "string \<Rightarrow> string" where
  "lower s = map char_lower s"

text \<open>
  \<^verbatim>\<open>s.title()\<close>: a cased character is put in upper case when the character before it is
  not cased, and in lower case when it is.
\<close>

fun title_from :: "bool \<Rightarrow> string \<Rightarrow> string" where
  "title_from previous_is_cased [] = []"
| "title_from previous_is_cased (c # cs) =
     (if is_lower c \<or> is_upper c
      then (if previous_is_cased then char_lower c else char_upper c) # title_from True cs
      else c # title_from False cs)"

definition title :: "string \<Rightarrow> string" where
  "title s = title_from False s"

text \<open>\<^verbatim>\<open>s.split()\<close>: the maximal runs of characters that are not white space.\<close>

fun split_from :: "string \<Rightarrow> string \<Rightarrow> string list" where
  "split_from cur [] = (if cur = [] then [] else [cur])"
| "split_from cur (c # cs) =
     (if is_space c
      then (if cur = [] then split_from [] cs else cur # split_from [] cs)
      else split_from (cur @ [c]) cs)"

definition split :: "string \<Rightarrow> string list" where
  "split s = split_from [] s"

text \<open>\<^verbatim>\<open>s.split(sep)\<close> for a separator of one character: empty pieces are kept.\<close>

fun split_sep_from :: "char \<Rightarrow> string \<Rightarrow> string \<Rightarrow> string list" where
  "split_sep_from sep cur [] = [cur]"
| "split_sep_from sep cur (c # cs) =
     (if c = sep then cur # split_sep_from sep [] cs
      else split_sep_from sep (cur @ [c]) cs)"

definition split_sep :: "char \<Rightarrow> string \<Rightarrow> string list" where
  "split_sep sep s = split_sep_from sep [] s"

text \<open>\<^verbatim>\<open>sep.join(xs)\<close>\<close>

fun join :: "string \<Rightarrow> string list \<Rightarrow> string" where
  "join sep [] = []"
| "join sep [x] = x"
| "join sep (x # y # ys) = x @ sep @ join sep (y # ys)"

text \<open>\<^verbatim>\<open>s.strip()\<close>\<close>

definition strip :: "string \<Rightarrow> string" where
  "strip s = rev (dropWhile is_space (rev (dropWhile is_space s)))"

text \<open>\<^verbatim>\<open>xs.index(x)\<close>, called only where \<open>x\<close> is in \<open>xs\<close>.\<close>

fun index :: "'a list \<Rightarrow> 'a \<Rightarrow> nat" where
  "index [] x = 0"
| "index (y # ys) x = (if y = x then 0 else Suc (index ys x))"

section \<open>Numbers: \<^verbatim>\<open>int\<close> and \<^verbatim>\<open>float\<close> of a string\<close>

text \<open>
  The grammar of both conversions, from the language reference:
  \<^verbatim>\<open>
  digitpart   ::= digit (["_"] digit)*
  number      ::= [digitpart] "." digitpart | digitpart ["."]
  exponent    ::= ("e" | "E") [sign] digitpart
  floatvalue  ::= [sign] (number [exponent] | "inf" | "infinity" | "nan")
  \<close>
  with \<open>inf\<close>, \<open>infinity\<close> and \<open>nan\<close> in any case, and white space around the
  number ignored. \<^verbatim>\<open>int\<close> in base ten takes \<^verbatim>\<open>[sign] digitpart\<close>.
\<close>

definition digit_val :: "char \<Rightarrow> nat" where
  "digit_val c = (of_char c :: nat) - 48"

text \<open>The value of a digit part: its digits in base ten, the underscores skipped.\<close>

definition digits_val :: "string \<Rightarrow> nat" where
  "digits_val s = foldl (\<lambda>a c. 10 * a + digit_val c) 0 (filter is_digit s)"

fun no_double_underscore :: "string \<Rightarrow> bool" where
  "no_double_underscore (a # b # cs) =
     (\<not> (a = CHR ''_'' \<and> b = CHR ''_'') \<and> no_double_underscore (b # cs))"
| "no_double_underscore _ = True"

definition digitpart :: "string \<Rightarrow> bool" where
  "digitpart s = (s \<noteq> [] \<and> is_digit (hd s) \<and> is_digit (last s)
                  \<and> (\<forall>c \<in> set s. is_digit c \<or> c = CHR ''_'')
                  \<and> no_double_underscore s)"

text \<open>An optional sign: \<open>True\<close> for a minus, and the rest of the string.\<close>

fun strip_sign :: "string \<Rightarrow> bool \<times> string" where
  "strip_sign [] = (False, [])"
| "strip_sign (c # cs) =
     (if c = CHR ''-'' then (True, cs)
      else if c = CHR ''+'' then (False, cs)
      else (False, c # cs))"

text \<open>\<^verbatim>\<open>int(s)\<close>: \<open>None\<close> is the \<^verbatim>\<open>ValueError\<close>.\<close>

definition py_int :: "string \<Rightarrow> int option" where
  "py_int s =
     (let (neg, body) = strip_sign (strip s)
      in if digitpart body
         then Some (if neg then - int (digits_val body) else int (digits_val body))
         else None)"

text \<open>
  A float is its exact value, or one of the three special values. Rounding to the
  nearest binary64 number is not modelled: \<open>Finite q\<close> stands for the float nearest
  to \<open>q\<close>, and is that float whenever \<open>q\<close> is one (every amount below is).
\<close>

datatype pyfloat = Finite rat | PosInf | NegInf | NaN

fun fneg :: "pyfloat \<Rightarrow> pyfloat" where
  "fneg (Finite q) = Finite (- q)"
| "fneg PosInf = NegInf"
| "fneg NegInf = PosInf"
| "fneg NaN = NaN"

text \<open>The pieces of a number: integer part, fraction part (if a point is there), exponent.\<close>

definition number_ok :: "string \<Rightarrow> bool" where
  "number_ok m =
     (case split_sep (CHR ''.'') m of
        [ip] \<Rightarrow> digitpart ip
      | [ip, fp] \<Rightarrow> (ip = [] \<and> digitpart fp) \<or> (digitpart ip \<and> (fp = [] \<or> digitpart fp))
      | _ \<Rightarrow> False)"

definition number_val :: "string \<Rightarrow> rat" where
  "number_val m =
     (case split_sep (CHR ''.'') m of
        [ip, fp] \<Rightarrow> of_nat (digits_val (ip @ fp)) / 10 ^ length (filter is_digit fp)
      | _ \<Rightarrow> of_nat (digits_val m))"

definition exponent_ok :: "string \<Rightarrow> bool" where
  "exponent_ok e = digitpart (snd (strip_sign e))"

definition exponent_scale :: "string \<Rightarrow> rat" where
  "exponent_scale e =
     (let (neg, body) = strip_sign e
      in if neg then 1 / 10 ^ digits_val body else 10 ^ digits_val body)"

text \<open>\<^verbatim>\<open>float(s)\<close>: \<open>None\<close> is the \<^verbatim>\<open>ValueError\<close>.\<close>

definition py_float :: "string \<Rightarrow> pyfloat option" where
  "py_float s =
     (let (neg, body) = strip_sign (strip s);
          sgn = (\<lambda>x. if neg then fneg x else x)
      in if lower body = ''inf'' \<or> lower body = ''infinity'' then Some (sgn PosInf)
         else if lower body = ''nan'' then Some NaN
         else (let m = takeWhile (\<lambda>c. c \<noteq> CHR ''e'' \<and> c \<noteq> CHR ''E'') body;
                   r = dropWhile (\<lambda>c. c \<noteq> CHR ''e'' \<and> c \<noteq> CHR ''E'') body
               in if r = [] then (if number_ok m then Some (sgn (Finite (number_val m))) else None)
                  else if number_ok m \<and> exponent_ok (tl r)
                  then Some (sgn (Finite (number_val m * exponent_scale (tl r))))
                  else None))"

text \<open>
  Addition and subtraction of floats, with the special values as IEEE 754 has them;
  on finite values they are exact.
\<close>

instantiation pyfloat :: comm_monoid_add
begin

definition zero_pyfloat :: pyfloat where
  "zero_pyfloat = Finite 0"

fun plus_pyfloat :: "pyfloat \<Rightarrow> pyfloat \<Rightarrow> pyfloat" where
  "plus_pyfloat (Finite a) (Finite b) = Finite (a + b)"
| "plus_pyfloat NaN _ = NaN"
| "plus_pyfloat _ NaN = NaN"
| "plus_pyfloat PosInf NegInf = NaN"
| "plus_pyfloat NegInf PosInf = NaN"
| "plus_pyfloat PosInf _ = PosInf"
| "plus_pyfloat _ PosInf = PosInf"
| "plus_pyfloat NegInf _ = NegInf"
| "plus_pyfloat _ NegInf = NegInf"

instance
proof
  fix x y z :: pyfloat
  show "x + y = y + x"
    by (cases x; cases y; simp)
  show "0 + x = x"
    unfolding zero_pyfloat_def by (cases x; simp)
  show "(x + y) + z = x + (y + z)"
    by (cases x; cases y; cases z; simp)
qed

end

definition fsub :: "pyfloat \<Rightarrow> pyfloat \<Rightarrow> pyfloat" where
  "fsub a b = a + fneg b"

section \<open>Dates\<close>

record date =
  year :: int
  month :: int
  day :: int

definition is_leap :: "int \<Rightarrow> bool" where
  "is_leap y = (y mod 4 = 0 \<and> (y mod 100 \<noteq> 0 \<or> y mod 400 = 0))"

definition days_in_month :: "int \<Rightarrow> int \<Rightarrow> int" where
  "days_in_month y m =
     (if m = 2 then (if is_leap y then 29 else 28)
      else if m = 4 \<or> m = 6 \<or> m = 9 \<or> m = 11 then 30
      else 31)"

text \<open>
  \<^verbatim>\<open>datetime(year, month, day)\<close> returns for the arguments its documentation allows,
  and raises \<^verbatim>\<open>ValueError\<close> for the others (\<open>None\<close> here).
\<close>

definition datetime :: "int \<Rightarrow> int \<Rightarrow> int \<Rightarrow> date option" where
  "datetime y m d =
     (if 1 \<le> y \<and> y \<le> 9999 \<and> 1 \<le> m \<and> m \<le> 12 \<and> 1 \<le> d \<and> d \<le> days_in_month y m
      then Some \<lparr>year = y, month = m, day = d\<rparr>
      else None)"

section \<open>The ledger: two worksheets\<close>

text \<open>
  A row of the \<open>Expenses\<close> sheet (Date, Category, Amount, Description, Payment Method) and
  one of the \<open>Salary\<close> sheet (Date, Amount, Description). The date cell is kept as the
  date whose \<^verbatim>\<open>%Y-%m-%d\<close> text the sheet holds. \<^verbatim>\<open>append_row\<close> adds a row at the end,
  \<^verbatim>\<open>get_all_records\<close> returns the rows in order.
\<close>

record expense_row =
  exp_date :: date
  exp_category :: string
  exp_amount :: pyfloat
  exp_description :: string
  exp_payment_method :: string

record salary_row =
  sal_date :: date
  sal_amount :: pyfloat
  sal_description :: string

record ledger =
  expenses_ws :: "expense_row list"
  salary_ws :: "salary_row list"

definition PAYMENT_METHODS :: "string list" where
  "PAYMENT_METHODS = [''Cash'', ''UPI'', ''Card'', ''Bank Transfer'', ''Other'']"

section \<open>Helper functions of the bot\<close>

text \<open>
  The \<^verbatim>\<open>sum()\<close> of a column of a data frame, and of a group of \<^verbatim>\<open>groupby\<close>: the values
  that are not NaN are added up, from zero.
\<close>

definition column_sum :: "pyfloat list \<Rightarrow> pyfloat" where
  "column_sum xs = sum_list (filter (\<lambda>x. x \<noteq> NaN) xs)"

definition calculate_balance :: "ledger \<Rightarrow> pyfloat" where
  "calculate_balance L =
     (let salary_data = salary_ws L;
          total_salary = (if salary_data \<noteq> [] then column_sum (map sal_amount salary_data)
                          else Finite 0);
          expense_data = expenses_ws L;
          total_expenses = (if expense_data \<noteq> [] then column_sum (map exp_amount expense_data)
                            else Finite 0)
      in fsub total_salary total_expenses)"









section \<open>The handlers\<close>

text \<open>
  A handler takes the date of the call (\<^verbatim>\<open>datetime.now()\<close>), its input and the ledger,
  and returns its reply with the ledger it leaves. The replies, by their text in the
  source: \<open>InvalidDateReply\<close> is "Invalid date format. Use DD/MM", \<open>InvalidAmountReply\<close>
  is "Invalid amount. Please enter numbers only", \<open>ErrorReply e\<close> is "Error: " with the
  text of the exception caught, \<open>UsageReply\<close> is the usage line of \<^verbatim>\<open>/addsalary\<close>;
  \<open>ExpenseAdded\<close> carries date, category, amount, payment method and remaining balance,
  \<open>SalaryAdded\<close> amount, description and balance.
\<close>

datatype py_exception = IndexError | ValueError

datatype reply =
    InvalidDateReply
  | InvalidAmountReply
  | ErrorReply py_exception
  | UsageReply
  | ExpenseAdded date string pyfloat string pyfloat
  | SalaryAdded pyfloat string pyfloat

text \<open>How the body of a \<^verbatim>\<open>try\<close> stops early: it replies and returns, or it raises.\<close>

datatype stop = Return reply | Raise py_exception

text \<open>
  The loop over \<open>PAYMENT_METHODS\<close> in \<^verbatim>\<open>handle_message\<close>:
  \<^verbatim>\<open>
  for method in PAYMENT_METHODS:
      if payment_method_raw.lower() == method.lower():
          payment_method = method
      break
  else:
      payment_method = "Other"
  \<close>
  The \<^verbatim>\<open>break\<close> is in the loop's body, not in the \<^verbatim>\<open>if\<close>: the first round ends the
  loop, match or no match. The \<^verbatim>\<open>else\<close> branch belongs to a loop that ends with no
  \<^verbatim>\<open>break\<close>, which here is the loop over no method at all.
\<close>

fun match_method :: "string \<Rightarrow> string list \<Rightarrow> string \<Rightarrow> string" where
  "match_method payment_method_raw [] payment_method = ''Other''"
| "match_method payment_method_raw (method # rest) payment_method =
     (if lower payment_method_raw = lower method then method else payment_method)"

text \<open>The payment method, and the parts left of \<open>via\<close>.\<close>

definition parse_payment :: "string list \<Rightarrow> string \<times> string list" where
  "parse_payment parts =
     (if ''via'' \<in> set parts
      then (let via_index = index parts ''via'';
                payment_method_raw = strip (join '' '' (drop (via_index + 1) parts))
            in (match_method payment_method_raw PAYMENT_METHODS ''Cash'', take via_index parts))
      else (''Cash'', parts))"

text \<open>
  The date, and the parts after it. \<^verbatim>\<open>parts[0]\<close> of no parts raises \<^verbatim>\<open>IndexError\<close>;
  \<^verbatim>\<open>int\<close> of a piece that is no integer raises \<^verbatim>\<open>ValueError\<close>, outside the inner
  \<^verbatim>\<open>try\<close>; a \<^verbatim>\<open>ValueError\<close> of \<^verbatim>\<open>datetime\<close> is answered by the reply on the date.
\<close>

definition parse_date :: "date \<Rightarrow> string list \<Rightarrow> stop + date \<times> string list" where
  "parse_date now parts =
     (case parts of
        [] \<Rightarrow> Inl (Raise IndexError)
      | p0 # rest \<Rightarrow>
          if CHR ''/'' \<in> set p0 \<and> length (split_sep (CHR ''/'') p0) = 2
          then (case map py_int (split_sep (CHR ''/'') p0) of
                  [Some d, Some m] \<Rightarrow>
                    (case datetime (year now) m d of
                       None \<Rightarrow> Inl (Return InvalidDateReply)
                     | Some expense_date \<Rightarrow> Inr (expense_date, rest))
                | _ \<Rightarrow> Inl (Raise ValueError))
          else Inr (now, parts))"

text \<open>Category, amount and description, from the parts after the date.\<close>

definition parse_fields :: "string list \<Rightarrow> stop + string \<times> pyfloat \<times> string" where
  "parse_fields parts =
     (case parts of
        [] \<Rightarrow> Inl (Raise IndexError)
      | [c] \<Rightarrow> Inl (Raise IndexError)
      | c # a # rest \<Rightarrow>
          (case py_float a of
             None \<Rightarrow> Inl (Return InvalidAmountReply)
           | Some amount \<Rightarrow>
               Inr (title c, amount, if length parts > 2 then join '' '' rest else [])))"

text \<open>The body of \<^verbatim>\<open>handle_message\<close> up to the row it is about to append.\<close>

definition parse_expense :: "date \<Rightarrow> string \<Rightarrow> stop + expense_row" where
  "parse_expense now message_text =
     (let message = lower message_text;
          (payment_method, parts) = parse_payment (split message)
      in case parse_date now parts of
           Inl s \<Rightarrow> Inl s
         | Inr (expense_date, parts') \<Rightarrow>
             (case parse_fields parts' of
                Inl s \<Rightarrow> Inl s
              | Inr (category, amount, description) \<Rightarrow>
                  Inr \<lparr>exp_date = expense_date, exp_category = category, exp_amount = amount,
                       exp_description = description, exp_payment_method = payment_method\<rparr>))"

definition handle_message :: "date \<Rightarrow> string \<Rightarrow> ledger \<Rightarrow> reply \<times> ledger" where
  "handle_message now message_text L =
     (case parse_expense now message_text of
        Inl (Return r) \<Rightarrow> (r, L)
      | Inl (Raise e) \<Rightarrow> (ErrorReply e, L)
      | Inr row \<Rightarrow>
          (let L' = L\<lparr>expenses_ws := expenses_ws L @ [row]\<rparr>
           in (ExpenseAdded (exp_date row) (exp_category row) (exp_amount row) (exp_payment_method row)
                 (calculate_balance L'), L')))"

text \<open>\<^verbatim>\<open>/addsalary\<close>, with \<open>args\<close> the words after the command.\<close>

definition add_salary :: "date \<Rightarrow> string list \<Rightarrow> ledger \<Rightarrow> reply \<times> ledger" where
  "add_salary now args L =
     (case args of
        [] \<Rightarrow> (UsageReply, L)
      | a # rest \<Rightarrow>
          (case py_float a of
             None \<Rightarrow> (InvalidAmountReply, L)
           | Some amount \<Rightarrow>
               (let description = (if length args > 1 then join '' '' rest else ''Monthly Salary'');
                    L' = L\<lparr>salary_ws := salary_ws L @
                            [\<lparr>sal_date = now, sal_amount = amount, sal_description = description\<rparr>]\<rparr>
                in (SalaryAdded amount description (calculate_balance L'), L'))))"

section \<open>The specification's words\<close>






text \<open>The replies that tell the user what was wrong with the input.\<close>

fun is_corrective :: "reply \<Rightarrow> bool" where
  "is_corrective InvalidDateReply = True"
| "is_corrective InvalidAmountReply = True"
| "is_corrective (ErrorReply e) = True"
| "is_corrective UsageReply = True"
| "is_corrective _ = False"

text \<open>Example data: a day of 2024, and the ledger with no rows.\<close>

definition day0 :: date where
  "day0 = \<lparr>year = 2024, month = 3, day = 10\<rparr>"

definition empty_ledger :: ledger where
  "empty_ledger = \<lparr>expenses_ws = [], salary_ws = []\<rparr>"



section \<open>Lemmas on the text operations\<close>

lemma length_split_sep_from:
  "length (split_sep_from sep cur s) = Suc (length (filter (\<lambda>c. c = sep) s))"
  by (induction s arbitrary: cur) simp_all

lemma length_split_sep:
  "length (split_sep sep s) = Suc (length (filter (\<lambda>c. c = sep) s))"
  by (simp add: split_sep_def length_split_sep_from)

lemma split_sep_two_has_sep:
  assumes "length (split_sep sep s) = 2"
  shows "sep \<in> set s"
proof -
  from assms have "filter (\<lambda>c. c = sep) s \<noteq> []"
    by (auto simp: length_split_sep)
  then obtain c where "c \<in> set (filter (\<lambda>c. c = sep) s)"
    by (cases "filter (\<lambda>c. c = sep) s") auto
  then show ?thesis by auto
qed

lemma of_char_char_lower:
  "is_upper c \<Longrightarrow> (of_char (char_lower c) :: nat) = of_char c + 32"
  by (simp add: char_lower_def is_upper_def)

lemma not_upper_char_lower: "\<not> is_upper (char_lower c)"
proof (cases "is_upper c")
  case True
  then show ?thesis
    using of_char_char_lower [OF True] by (simp add: is_upper_def)
next
  case False
  then show ?thesis by (simp add: char_lower_def)
qed

lemma char_lower_idem: "char_lower (char_lower c) = char_lower c"
  using not_upper_char_lower [of c] by (simp add: char_lower_def [of "char_lower c"])

lemma is_space_char_lower: "is_space (char_lower c) = is_space c"
proof (cases "is_upper c")
  case True
  then show ?thesis
    using of_char_char_lower [OF True] by (simp add: is_space_def is_upper_def)
next
  case False
  then show ?thesis by (simp add: char_lower_def)
qed

lemma lower_idem: "lower (lower s) = lower s"
  by (simp add: lower_def char_lower_idem)

lemma lower_append: "lower (xs @ ys) = lower xs @ lower ys"
  by (simp add: lower_def)

lemma split_from_lower:
  "split_from (lower cur) (lower s) = map lower (split_from cur s)"
proof (induction s arbitrary: cur)
  case Nil
  then show ?case by (simp add: lower_def)
next
  case (Cons c cs)
  have step: "lower (c # cs) = char_lower c # lower cs" "lower (cur @ [c]) = lower cur @ [char_lower c]"
    "lower [] = []" "(lower cur = []) = (cur = [])"
    by (simp_all add: lower_def)
  show ?case
    using Cons.IH [of "[]"] Cons.IH [of "cur @ [c]"]
    by (simp add: step is_space_char_lower)
qed

lemma split_lower: "split (lower s) = map lower (split s)"
  using split_from_lower [of "[]" s] by (simp add: split_def lower_def)

lemma lower_join:
  "lower (join sep xs) = join (lower sep) (map lower xs)"
  by (induction sep xs rule: join.induct) (simp_all add: lower_append, simp add: lower_def)

section \<open>Lemmas on the steps of the parser\<close>

lemma join_space_lower:
  assumes "\<forall>p \<in> set xs. lower p = p"
  shows "lower (join '' '' xs) = join '' '' xs"
proof -
  have sp: "lower '' '' = '' ''"
    by (simp add: lower_def char_lower_def is_upper_def)
  have "map lower xs = xs"
    using assms by (simp add: map_idI)
  then show ?thesis
    by (simp add: lower_join sp)
qed

lemma lower_no_upper: "lower s = s \<Longrightarrow> \<forall>c \<in> set s. \<not> is_upper c"
proof
  fix c assume s: "lower s = s" and c: "c \<in> set s"
  from c have "char_lower c \<in> set (lower s)"
    by (simp add: lower_def)
  moreover from c s have "c \<in> set (lower s)" by simp
  then obtain d where "d \<in> set s" "c = char_lower d"
    by (auto simp: lower_def)
  then show "\<not> is_upper c"
    by (simp add: not_upper_char_lower)
qed

text \<open>What the payment step leaves: a prefix of the parts.\<close>

lemma parse_payment_parts:
  "parse_payment parts = (pm, parts') \<Longrightarrow> set parts' \<subseteq> set parts"
  by (auto simp: parse_payment_def Let_def split: if_splits dest: in_set_takeD)

lemma parse_payment_no_via:
  "''via'' \<notin> set parts \<Longrightarrow> parse_payment parts = (''Cash'', parts)"
  by (simp add: parse_payment_def)

lemma parse_payment_cash: "fst (parse_payment parts) = ''Cash''"
  by (simp add: parse_payment_def Let_def PAYMENT_METHODS_def)

lemma parse_date_no_date:
  "length (split_sep (CHR ''/'') p0) \<noteq> 2 \<Longrightarrow> parse_date now (p0 # rest) = Inr (now, p0 # rest)"
  by (simp add: parse_date_def)

lemma parse_date_numeric:
  assumes "split_sep (CHR ''/'') p0 = [a, b]" "py_int a = Some d" "py_int b = Some m"
  shows "parse_date now (p0 # rest) =
           (case datetime (year now) m d of
              None \<Rightarrow> Inl (Return InvalidDateReply)
            | Some expense_date \<Rightarrow> Inr (expense_date, rest))"
proof -
  have "length (split_sep (CHR ''/'') p0) = 2"
    using assms(1) by simp
  then have "CHR ''/'' \<in> set p0"
    by (rule split_sep_two_has_sep)
  then show ?thesis
    using assms by (simp add: parse_date_def)
qed

lemma parse_date_not_int:
  assumes "split_sep (CHR ''/'') p0 = [a, b]" "py_int a = None \<or> py_int b = None"
  shows "parse_date now (p0 # rest) = Inl (Raise ValueError)"
proof -
  have "length (split_sep (CHR ''/'') p0) = 2"
    using assms(1) by simp
  then have "CHR ''/'' \<in> set p0"
    by (rule split_sep_two_has_sep)
  then show ?thesis
    using assms by (auto simp: parse_date_def split: option.splits)
qed

lemma parse_date_parts:
  "parse_date now parts = Inr (d, parts') \<Longrightarrow> set parts' \<subseteq> set parts"
  by (auto simp: parse_date_def split: list.splits if_splits option.splits)

lemma parse_fields_Inr:
  "parse_fields parts = Inr (c, amount, description) \<longleftrightarrow>
     (\<exists>p0 a rest. parts = p0 # a # rest \<and> c = title p0 \<and> py_float a = Some amount
        \<and> description = join '' '' rest)"
  by (auto simp: parse_fields_def split: list.splits option.splits)

lemma parse_fields_ok:
  "py_float a = Some amount \<Longrightarrow> parse_fields (p0 # a # rest) = Inr (title p0, amount, join '' '' rest)"
  by (simp add: parse_fields_Inr)

lemma parse_fields_not_float:
  "py_float a = None \<Longrightarrow> parse_fields (p0 # a # rest) = Inl (Return InvalidAmountReply)"
  by (simp add: parse_fields_def)

lemma parse_fields_short:
  "length parts < 2 \<Longrightarrow> parse_fields parts = Inl (Raise IndexError)"
  by (auto simp: parse_fields_def split: list.splits)

text \<open>The steps of the parser, in order.\<close>

lemma parse_expense_steps:
  assumes "parse_payment (split (lower msg)) = (pm, parts)"
  shows "parse_expense now msg =
           (case parse_date now parts of
              Inl s \<Rightarrow> Inl s
            | Inr (expense_date, parts') \<Rightarrow>
                (case parse_fields parts' of
                   Inl s \<Rightarrow> Inl s
                 | Inr (c, amount, description) \<Rightarrow>
                     Inr \<lparr>exp_date = expense_date, exp_category = c, exp_amount = amount,
                          exp_description = description, exp_payment_method = pm\<rparr>))"
  using assms by (simp add: parse_expense_def)

lemma parse_expense_Inr:
  assumes "parse_expense now msg = Inr row"
  obtains pm parts d p0 a rest amount where
    "parse_payment (split (lower msg)) = (pm, parts)"
    "parse_date now parts = Inr (d, p0 # a # rest)"
    "py_float a = Some amount"
    "row = \<lparr>exp_date = d, exp_category = title p0, exp_amount = amount,
            exp_description = join '' '' rest, exp_payment_method = pm\<rparr>"
proof -
  obtain pm parts where pp: "parse_payment (split (lower msg)) = (pm, parts)"
    by (cases "parse_payment (split (lower msg))")
  from assms parse_expense_steps [OF pp, of now]
  obtain d parts' where pd: "parse_date now parts = Inr (d, parts')"
    by (auto split: sum.splits)
  from assms parse_expense_steps [OF pp, of now] pd
  obtain c amount description where pf: "parse_fields parts' = Inr (c, amount, description)"
    and row: "row = \<lparr>exp_date = d, exp_category = c, exp_amount = amount,
            exp_description = description, exp_payment_method = pm\<rparr>"
    by (auto split: sum.splits)
  from pf obtain p0 a rest where "parts' = p0 # a # rest" "c = title p0" "py_float a = Some amount"
    "description = join '' '' rest"
    by (auto simp: parse_fields_Inr)
  with pp pd row show thesis
    by (intro that) auto
qed

lemma handle_message_Inl:
  "parse_expense now msg = Inl s \<Longrightarrow>
     handle_message now msg L = ((case s of Return r \<Rightarrow> r | Raise e \<Rightarrow> ErrorReply e), L)"
  by (simp add: handle_message_def split: stop.splits)

lemma handle_message_Inr:
  "parse_expense now msg = Inr row \<Longrightarrow>
     handle_message now msg L =
       (ExpenseAdded (exp_date row) (exp_category row) (exp_amount row) (exp_payment_method row)
          (calculate_balance (L\<lparr>expenses_ws := expenses_ws L @ [row]\<rparr>)),
        L\<lparr>expenses_ws := expenses_ws L @ [row]\<rparr>)"
  by (simp add: handle_message_def Let_def)

lemma parse_date_Return:
  "parse_date now parts = Inl (Return r) \<Longrightarrow> r = InvalidDateReply"
  by (auto simp: parse_date_def split: list.splits if_splits option.splits)

lemma parse_fields_Return:
  "parse_fields parts = Inl (Return r) \<Longrightarrow> r = InvalidAmountReply"
  by (auto simp: parse_fields_def split: list.splits option.splits)

lemma parse_expense_Return:
  assumes "parse_expense now msg = Inl (Return r)"
  shows "r = InvalidDateReply \<or> r = InvalidAmountReply"
proof -
  obtain pm parts where pp: "parse_payment (split (lower msg)) = (pm, parts)"
    by (cases "parse_payment (split (lower msg))")
  show ?thesis
  proof (cases "parse_date now parts")
    case (Inl s)
    with assms parse_expense_steps [OF pp, of now] show ?thesis
      by (simp add: parse_date_Return)
  next
    case (Inr dp)
    with assms parse_expense_steps [OF pp, of now] show ?thesis
      by (cases dp) (auto split: sum.splits dest: parse_fields_Return)
  qed
qed

lemma handle_message_cases:
  assumes "handle_message now msg L = (r, L')"
  shows "(is_corrective r \<and> L' = L)
       \<or> (\<exists>row. parse_expense now msg = Inr row
              \<and> L' = L\<lparr>expenses_ws := expenses_ws L @ [row]\<rparr>
              \<and> r = ExpenseAdded (exp_date row) (exp_category row) (exp_amount row)
                     (exp_payment_method row) (calculate_balance L'))"
proof (cases "parse_expense now msg")
  case (Inl s)
  with assms show ?thesis
    by (cases s) (auto simp: handle_message_Inl dest: parse_expense_Return)
next
  case (Inr row)
  with assms show ?thesis
    by (auto simp: handle_message_Inr)
qed


lemma add_salary_not_float:
  "py_float a = None \<Longrightarrow> add_salary now (a # rest) L = (InvalidAmountReply, L)"
  by (simp add: add_salary_def)

lemma add_salary_ok:
  "py_float a = Some amount \<Longrightarrow>
   add_salary now (a # rest) L =
     (SalaryAdded amount (if rest = [] then ''Monthly Salary'' else join '' '' rest)
        (calculate_balance (L\<lparr>salary_ws := salary_ws L @
           [\<lparr>sal_date = now, sal_amount = amount,
             sal_description = (if rest = [] then ''Monthly Salary'' else join '' '' rest)\<rparr>]\<rparr>)),
      L\<lparr>salary_ws := salary_ws L @
           [\<lparr>sal_date = now, sal_amount = amount,
             sal_description = (if rest = [] then ''Monthly Salary'' else join '' '' rest)\<rparr>]\<rparr>)"
  by (simp add: add_salary_def Let_def)

lemma handle_message_not_float:
  assumes "parse_payment (split (lower msg)) = (pm, parts)"
    and "parse_date now parts = Inr (d, p0 # a # rest)"
    and "py_float a = None"
  shows "handle_message now msg L = (InvalidAmountReply, L)"
proof -
  from assms(3) have "parse_fields (p0 # a # rest) = Inl (Return InvalidAmountReply)"
    by (rule parse_fields_not_float)
  with parse_expense_steps [OF assms(1), of now] assms(2)
  have "parse_expense now msg = Inl (Return InvalidAmountReply)"
    by simp
  then show ?thesis
    by (simp add: handle_message_Inl)
qed

lemma handle_message_no_amount:
  assumes "parse_payment (split (lower msg)) = (pm, parts)"
    and "parse_date now parts = Inr (d, parts')"
    and "length parts' < 2"
  shows "handle_message now msg L = (ErrorReply IndexError, L)"
proof -
  from assms(3) have "parse_fields parts' = Inl (Raise IndexError)"
    by (rule parse_fields_short)
  with parse_expense_steps [OF assms(1), of now] assms(2)
  have "parse_expense now msg = Inl (Raise IndexError)"
    by simp
  then show ?thesis
    by (simp add: handle_message_Inl)
qed

section \<open>Lemmas on sums and groups\<close>












section \<open>The payment method\<close>

text \<open>
  C1 (what the code does): the loop over the payment methods leaves after its first
  round, so the method after \<open>via\<close> is compared with \<open>Cash\<close> only and the else branch
  is never taken. The payment method stored is \<open>Cash\<close> for every message: for
  \<open>food 250 lunch via UPI\<close> it is not \<open>UPI\<close>, for \<open>food 250 lunch via XYZ\<close> it is not
  \<open>Other\<close>.
\<close>

theorem via_method_not_matched:
  "fst (parse_payment parts) = ''Cash''
   \<and> handle_message now ''food 250 lunch via UPI'' empty_ledger =
       (ExpenseAdded now ''Food'' (Finite 250) ''Cash'' (Finite (- 250)),
        \<lparr>expenses_ws = [\<lparr>exp_date = now, exp_category = ''Food'', exp_amount = Finite 250,
                         exp_description = ''lunch'', exp_payment_method = ''Cash''\<rparr>],
         salary_ws = []\<rparr>)
   \<and> handle_message now ''food 250 lunch via XYZ'' empty_ledger =
       (ExpenseAdded now ''Food'' (Finite 250) ''Cash'' (Finite (- 250)),
        \<lparr>expenses_ws = [\<lparr>exp_date = now, exp_category = ''Food'', exp_amount = Finite 250,
                         exp_description = ''lunch'', exp_payment_method = ''Cash''\<rparr>],
         salary_ws = []\<rparr>)"
proof (intro conjI)
  show "fst (parse_payment parts) = ''Cash''"
    by (rule parse_payment_cash)
  show "handle_message now ''food 250 lunch via UPI'' empty_ledger =
       (ExpenseAdded now ''Food'' (Finite 250) ''Cash'' (Finite (- 250)),
        \<lparr>expenses_ws = [\<lparr>exp_date = now, exp_category = ''Food'', exp_amount = Finite 250,
                         exp_description = ''lunch'', exp_payment_method = ''Cash''\<rparr>],
         salary_ws = []\<rparr>)"
    by code_simp
  show "handle_message now ''food 250 lunch via XYZ'' empty_ledger =
       (ExpenseAdded now ''Food'' (Finite 250) ''Cash'' (Finite (- 250)),
        \<lparr>expenses_ws = [\<lparr>exp_date = now, exp_category = ''Food'', exp_amount = Finite 250,
                         exp_description = ''lunch'', exp_payment_method = ''Cash''\<rparr>],
         salary_ws = []\<rparr>)"
    by code_simp
qed

text \<open>
  C2: a message with no \<open>via\<close> among its words keeps all its words for the later steps
  and gets the payment method \<open>Cash\<close>; \<open>food 250 lunch\<close> is parsed to category
  \<open>Food\<close>, amount 250, description \<open>lunch\<close>, payment method \<open>Cash\<close> and the date of
  the call.
\<close>

theorem no_via_payment_cash:
  "(''via'' \<notin> set (split (lower msg)) \<longrightarrow>
      parse_payment (split (lower msg)) = (''Cash'', split (lower msg))
      \<and> (\<forall>row. parse_expense now msg = Inr row \<longrightarrow> exp_payment_method row = ''Cash''))
   \<and> parse_expense now ''food 250 lunch'' =
       Inr \<lparr>exp_date = now, exp_category = ''Food'', exp_amount = Finite 250,
            exp_description = ''lunch'', exp_payment_method = ''Cash''\<rparr>"
proof (intro conjI impI allI)
  assume nv: "''via'' \<notin> set (split (lower msg))"
  then show pp: "parse_payment (split (lower msg)) = (''Cash'', split (lower msg))"
    by (rule parse_payment_no_via)
  fix row assume "parse_expense now msg = Inr row"
  then show "exp_payment_method row = ''Cash''"
    using pp by (elim parse_expense_Inr) simp
next
  show "parse_expense now ''food 250 lunch'' =
       Inr \<lparr>exp_date = now, exp_category = ''Food'', exp_amount = Finite 250,
            exp_description = ''lunch'', exp_payment_method = ''Cash''\<rparr>"
    by code_simp
qed

theorem no_via_payment_cash_witness:
  "''via'' \<notin> set (split (lower ''Tea 12.5 chai'')) \<and>
   parse_expense day0 ''Tea 12.5 chai'' =
     Inr \<lparr>exp_date = day0, exp_category = ''Tea'', exp_amount = Finite (25 / 2),
          exp_description = ''chai'', exp_payment_method = ''Cash''\<rparr> \<and>
   exp_payment_method \<lparr>exp_date = day0, exp_category = ''Tea'', exp_amount = Finite (25 / 2),
          exp_description = ''chai'', exp_payment_method = ''Cash''\<rparr> = ''Cash''"
proof -
  have h: "''via'' \<notin> set (split (lower ''Tea 12.5 chai''))"
    by code_simp
  have p: "parse_expense day0 ''Tea 12.5 chai'' =
     Inr \<lparr>exp_date = day0, exp_category = ''Tea'', exp_amount = Finite (25 / 2),
          exp_description = ''chai'', exp_payment_method = ''Cash''\<rparr>"
    by code_simp
  from no_via_payment_cash [of "''Tea 12.5 chai''" day0] h p
  have "exp_payment_method \<lparr>exp_date = day0, exp_category = ''Tea'', exp_amount = Finite (25 / 2),
          exp_description = ''chai'', exp_payment_method = ''Cash''\<rparr> = ''Cash''"
    by blast
  with h p show ?thesis by blast
qed

section \<open>The date\<close>



text \<open>
  C4 as stated fails: the first part \<open>a/b\<close> has one \<open>/\<close> and pieces that are no
  integers, and the message is not stored with category \<open>A/B\<close> but answered with the
  error reply.
\<close>

theorem slash_token_not_numeric_counterexample:
  "handle_message day0 ''a/b 100 x'' empty_ledger = (ErrorReply ValueError, empty_ledger)
   \<and> parse_expense day0 ''a/b 100 x'' \<noteq>
       Inr \<lparr>exp_date = day0, exp_category = ''A/B'', exp_amount = Finite 100,
            exp_description = ''x'', exp_payment_method = ''Cash''\<rparr>"
  by code_simp

text \<open>
  C4, amended: a first part that does not have exactly one \<open>/\<close> is not consumed: the
  date is the date of the call and the part becomes the category, when a numeric amount
  follows. A first part with exactly one \<open>/\<close> is always taken as a date: when a piece
  of it is no integer, the message gets the error reply and nothing is stored.
\<close>

theorem non_date_token_is_category:
  assumes "parse_payment (split (lower msg)) = (pm, p0 # rest)"
  shows "(length (split_sep (CHR ''/'') p0) \<noteq> 2 \<longrightarrow>
            parse_date now (p0 # rest) = Inr (now, p0 # rest)
            \<and> (\<forall>a more amount. rest = a # more \<and> py_float a = Some amount \<longrightarrow>
                 parse_expense now msg =
                   Inr \<lparr>exp_date = now, exp_category = title p0, exp_amount = amount,
                        exp_description = join '' '' more, exp_payment_method = pm\<rparr>))
       \<and> (\<forall>a b. split_sep (CHR ''/'') p0 = [a, b] \<and> (py_int a = None \<or> py_int b = None) \<longrightarrow>
            handle_message now msg L = (ErrorReply ValueError, L))"
proof (intro conjI impI allI)
  assume nd: "length (split_sep (CHR ''/'') p0) \<noteq> 2"
  then show pd: "parse_date now (p0 # rest) = Inr (now, p0 # rest)"
    by (rule parse_date_no_date)
  fix a more amount
  assume "rest = a # more \<and> py_float a = Some amount"
  then have "parse_fields (p0 # rest) = Inr (title p0, amount, join '' '' more)"
    by (simp add: parse_fields_ok)
  with parse_expense_steps [OF assms, of now] pd
  show "parse_expense now msg =
                   Inr \<lparr>exp_date = now, exp_category = title p0, exp_amount = amount,
                        exp_description = join '' '' more, exp_payment_method = pm\<rparr>"
    by simp
next
  fix a b
  assume "split_sep (CHR ''/'') p0 = [a, b] \<and> (py_int a = None \<or> py_int b = None)"
  then have "parse_date now (p0 # rest) = Inl (Raise ValueError)"
    by (simp add: parse_date_not_int)
  with parse_expense_steps [OF assms, of now]
  have "parse_expense now msg = Inl (Raise ValueError)"
    by simp
  then show "handle_message now msg L = (ErrorReply ValueError, L)"
    by (simp add: handle_message_Inl)
qed

theorem non_date_token_is_category_witness:
  "parse_payment (split (lower ''and/or/x 40 Two Things'')) = (''Cash'', [''and/or/x'', ''40'', ''two'', ''things''])
   \<and> length (split_sep (CHR ''/'') ''and/or/x'') \<noteq> 2
   \<and> py_float ''40'' = Some (Finite 40)
   \<and> parse_expense day0 ''and/or/x 40 Two Things'' =
        Inr \<lparr>exp_date = day0, exp_category = title ''and/or/x'', exp_amount = Finite 40,
             exp_description = join '' '' [''two'', ''things''], exp_payment_method = ''Cash''\<rparr>
   \<and> title ''and/or/x'' = ''And/Or/X''
   \<and> parse_payment (split (lower ''1/x 40'')) = (''Cash'', [''1/x'', ''40''])
   \<and> split_sep (CHR ''/'') ''1/x'' = [''1'', ''x''] \<and> py_int ''x'' = None
   \<and> handle_message day0 ''1/x 40'' empty_ledger = (ErrorReply ValueError, empty_ledger)"
proof -
  have h1: "parse_payment (split (lower ''and/or/x 40 Two Things'')) = (''Cash'', [''and/or/x'', ''40'', ''two'', ''things''])"
    by code_simp
  have h2: "length (split_sep (CHR ''/'') ''and/or/x'') \<noteq> 2" by code_simp
  have h3: "py_float ''40'' = Some (Finite 40)" by code_simp
  have h4: "title ''and/or/x'' = ''And/Or/X''" by code_simp
  have g1: "parse_payment (split (lower ''1/x 40'')) = (''Cash'', [''1/x'', ''40''])" by code_simp
  have g2: "split_sep (CHR ''/'') ''1/x'' = [''1'', ''x'']" by code_simp
  have g3: "py_int ''x'' = None" by code_simp
  from non_date_token_is_category [OF h1, of day0] h2 h3
  have a: "parse_expense day0 ''and/or/x 40 Two Things'' =
        Inr \<lparr>exp_date = day0, exp_category = title ''and/or/x'', exp_amount = Finite 40,
             exp_description = join '' '' [''two'', ''things''], exp_payment_method = ''Cash''\<rparr>"
    by blast
  from non_date_token_is_category [OF g1, of day0 empty_ledger] g2 g3
  have b: "handle_message day0 ''1/x 40'' empty_ledger = (ErrorReply ValueError, empty_ledger)"
    by blast
  from h1 h2 h3 h4 g1 g2 g3 a b show ?thesis by blast
qed

section \<open>The amount\<close>




text \<open>
  C7: when \<^verbatim>\<open>/addsalary\<close> succeeds, the row appended to the salary sheet has the date of
  the call, the float of the first argument as amount and, as description, the
  arguments after the first joined by spaces, or \<open>Monthly Salary\<close> when there is none.
\<close>

theorem add_salary_record:
  assumes "add_salary now args L = (SalaryAdded amount description balance, L')"
  shows "args \<noteq> [] \<and> py_float (hd args) = Some amount
       \<and> description = (if tl args = [] then ''Monthly Salary'' else join '' '' (tl args))
       \<and> L' = L\<lparr>salary_ws := salary_ws L @
                  [\<lparr>sal_date = now, sal_amount = amount, sal_description = description\<rparr>]\<rparr>
       \<and> balance = calculate_balance L'"
proof (cases args)
  case Nil
  with assms show ?thesis by (simp add: add_salary_def)
next
  case (Cons a rest)
  show ?thesis
  proof (cases "py_float a")
    case None
    with assms Cons show ?thesis by (simp add: add_salary_not_float)
  next
    case (Some x)
    with assms Cons show ?thesis by (auto simp: add_salary_ok)
  qed
qed

theorem add_salary_record_witness:
  "add_salary day0 [''1000''] empty_ledger =
     (SalaryAdded (Finite 1000) ''Monthly Salary'' (Finite 1000),
      \<lparr>expenses_ws = [],
       salary_ws = [\<lparr>sal_date = day0, sal_amount = Finite 1000, sal_description = ''Monthly Salary''\<rparr>]\<rparr>)
   \<and> add_salary day0 [''1e3'', ''March'', ''Pay''] empty_ledger =
     (SalaryAdded (Finite 1000) ''March Pay'' (Finite 1000),
      \<lparr>expenses_ws = [],
       salary_ws = [\<lparr>sal_date = day0, sal_amount = Finite 1000, sal_description = ''March Pay''\<rparr>]\<rparr>)
   \<and> ''March Pay'' = (if tl [''1e3'', ''March'', ''Pay''] = [] then ''Monthly Salary''
                        else join '' '' (tl [''1e3'', ''March'', ''Pay'']))
   \<and> ''Monthly Salary'' = (if tl [''1000''] = [] then ''Monthly Salary'' else join '' '' (tl [''1000'']))"
proof -
  have a: "add_salary day0 [''1000''] empty_ledger =
     (SalaryAdded (Finite 1000) ''Monthly Salary'' (Finite 1000),
      \<lparr>expenses_ws = [],
       salary_ws = [\<lparr>sal_date = day0, sal_amount = Finite 1000, sal_description = ''Monthly Salary''\<rparr>]\<rparr>)"
    by code_simp
  have b: "add_salary day0 [''1e3'', ''March'', ''Pay''] empty_ledger =
     (SalaryAdded (Finite 1000) ''March Pay'' (Finite 1000),
      \<lparr>expenses_ws = [],
       salary_ws = [\<lparr>sal_date = day0, sal_amount = Finite 1000, sal_description = ''March Pay''\<rparr>]\<rparr>)"
    by code_simp
  from add_salary_record [OF a] add_salary_record [OF b] a b show ?thesis
    by blast
qed

section \<open>Failing messages, and the case of the text\<close>

text \<open>
  C9: when the parser stops early (the date is invalid, the amount is missing or is no
  float, or anything else raised), the handler answers with a corrective reply and
  returns the ledger unchanged; the ledger changes only by the one row of a message
  that was parsed.
\<close>

theorem parse_failure_leaves_ledger:
  "(parse_expense now msg = Inl s \<longrightarrow>
      snd (handle_message now msg L) = L \<and> is_corrective (fst (handle_message now msg L)))
   \<and> (handle_message now msg L = (r, L') \<and> L' \<noteq> L \<longrightarrow>
        (\<exists>row. parse_expense now msg = Inr row \<and> L' = L\<lparr>expenses_ws := expenses_ws L @ [row]\<rparr>))
   \<and> (parse_payment (split (lower msg)) = (pm, parts) \<longrightarrow>
        (\<forall>p0 rest a b d m.
            parts = p0 # rest \<and> split_sep (CHR ''/'') p0 = [a, b] \<and> py_int a = Some d
            \<and> py_int b = Some m \<and> datetime (year now) m d = None \<longrightarrow>
            handle_message now msg L = (InvalidDateReply, L))
      \<and> (\<forall>dt parts'.
            parse_date now parts = Inr (dt, parts') \<and> length parts' < 2 \<longrightarrow>
            handle_message now msg L = (ErrorReply IndexError, L))
      \<and> (\<forall>dt p0 a rest.
            parse_date now parts = Inr (dt, p0 # a # rest) \<and> py_float a = None \<longrightarrow>
            handle_message now msg L = (InvalidAmountReply, L)))"
proof (intro conjI impI allI)
  assume "parse_expense now msg = Inl s"
  then show "snd (handle_message now msg L) = L"
    and "is_corrective (fst (handle_message now msg L))"
    by (cases s; auto simp: handle_message_Inl dest: parse_expense_Return)+
next
  assume "handle_message now msg L = (r, L') \<and> L' \<noteq> L"
  then show "\<exists>row. parse_expense now msg = Inr row \<and> L' = L\<lparr>expenses_ws := expenses_ws L @ [row]\<rparr>"
    using handle_message_cases [of now msg L r L'] by blast
next
  fix p0 rest a b d m
  assume pp: "parse_payment (split (lower msg)) = (pm, parts)"
    and h: "parts = p0 # rest \<and> split_sep (CHR ''/'') p0 = [a, b] \<and> py_int a = Some d
            \<and> py_int b = Some m \<and> datetime (year now) m d = None"
  then have "parse_date now parts = Inl (Return InvalidDateReply)"
    by (simp add: parse_date_numeric)
  with parse_expense_steps [OF pp, of now]
  have "parse_expense now msg = Inl (Return InvalidDateReply)"
    by simp
  then show "handle_message now msg L = (InvalidDateReply, L)"
    by (simp add: handle_message_Inl)
next
  fix dt parts'
  assume "parse_payment (split (lower msg)) = (pm, parts)"
    and "parse_date now parts = Inr (dt, parts') \<and> length parts' < 2"
  then show "handle_message now msg L = (ErrorReply IndexError, L)"
    using handle_message_no_amount by blast
next
  fix dt p0 a rest
  assume "parse_payment (split (lower msg)) = (pm, parts)"
    and "parse_date now parts = Inr (dt, p0 # a # rest) \<and> py_float a = None"
  then show "handle_message now msg L = (InvalidAmountReply, L)"
    using handle_message_not_float by blast
qed

theorem parse_failure_leaves_ledger_witness:
  "parse_expense day0 ''food abc desc'' = Inl (Return InvalidAmountReply)
   \<and> snd (handle_message day0 ''food abc desc'' empty_ledger) = empty_ledger
   \<and> is_corrective (fst (handle_message day0 ''food abc desc'' empty_ledger))
   \<and> parse_payment (split (lower ''12/05 Food via upi'')) = (''Cash'', [''12/05'', ''food''])
   \<and> parse_date day0 [''12/05'', ''food''] = Inr (\<lparr>year = 2024, month = 5, day = 12\<rparr>, [''food''])
   \<and> handle_message day0 ''12/05 Food via upi'' empty_ledger = (ErrorReply IndexError, empty_ledger)"
proof -
  have h1: "parse_expense day0 ''food abc desc'' = Inl (Return InvalidAmountReply)"
    by code_simp
  have h2: "parse_payment (split (lower ''12/05 Food via upi'')) = (''Cash'', [''12/05'', ''food''])"
    by code_simp
  have h3: "parse_date day0 [''12/05'', ''food''] = Inr (\<lparr>year = 2024, month = 5, day = 12\<rparr>, [''food''])"
    by code_simp
  have h4: "length [''food''] < 2"
    by simp
  from parse_failure_leaves_ledger [where now = day0 and msg = "''food abc desc''"
      and L = empty_ledger and s = "Return InvalidAmountReply"] h1
  have a: "snd (handle_message day0 ''food abc desc'' empty_ledger) = empty_ledger
    \<and> is_corrective (fst (handle_message day0 ''food abc desc'' empty_ledger))"
    by blast
  from parse_failure_leaves_ledger [where now = day0 and msg = "''12/05 Food via upi''"
      and L = empty_ledger and pm = "''Cash''" and parts = "[''12/05'', ''food'']"] h2 h3 h4
  have b: "handle_message day0 ''12/05 Food via upi'' empty_ledger = (ErrorReply IndexError, empty_ledger)"
    by blast
  from h1 h2 h3 a b show ?thesis by blast
qed

text \<open>
  C10: the words the parser works on are the words of the message in lower case. The
  category stored is the title case of the first of them left after the date, and the
  description stored is the join of those after the amount: it has no upper-case
  letter, whatever the case of the message.
\<close>

theorem stored_text_is_lowercased:
  assumes "parse_expense now msg = Inr row"
  shows "split (lower msg) = map lower (split msg)
       \<and> (\<forall>pm parts d parts'.
             parse_payment (split (lower msg)) = (pm, parts) \<and> parse_date now parts = Inr (d, parts')
             \<longrightarrow> exp_category row = title (hd parts')
                 \<and> exp_description row = join '' '' (drop 2 parts'))
       \<and> (\<exists>tok \<in> set (split msg). exp_category row = title (lower tok))
       \<and> lower (exp_description row) = exp_description row
       \<and> (\<forall>c \<in> set (exp_description row). \<not> is_upper c)"
proof -
  from assms obtain pm parts d p0 a rest amount where
    pp: "parse_payment (split (lower msg)) = (pm, parts)"
    and pd: "parse_date now parts = Inr (d, p0 # a # rest)"
    and row: "row = \<lparr>exp_date = d, exp_category = title p0, exp_amount = amount,
            exp_description = join '' '' rest, exp_payment_method = pm\<rparr>"
    by (rule parse_expense_Inr)
  from parse_date_parts [OF pd] parse_payment_parts [OF pp]
  have sub: "set (p0 # a # rest) \<subseteq> lower ` set (split msg)"
    by (auto simp: split_lower)
  then have cat: "\<exists>tok \<in> set (split msg). exp_category row = title (lower tok)"
    using row by auto
  from sub have "\<forall>p \<in> set rest. lower p = p"
    by (auto simp: lower_idem)
  then have low: "lower (exp_description row) = exp_description row"
    using row by (simp add: join_space_lower)
  have steps: "exp_category row = title (hd parts') \<and> exp_description row = join '' '' (drop 2 parts')"
    if "parse_payment (split (lower msg)) = (pm', parts'')" "parse_date now parts'' = Inr (d', parts')"
    for pm' parts'' d' parts'
    using that pp pd row by simp
  from steps cat low lower_no_upper [OF low] split_lower [of msg] show ?thesis
    by blast
qed

theorem stored_text_is_lowercased_witness:
  "parse_expense day0 ''FOOD 250 Lunch At CAFE'' =
     Inr \<lparr>exp_date = day0, exp_category = ''Food'', exp_amount = Finite 250,
          exp_description = ''lunch at cafe'', exp_payment_method = ''Cash''\<rparr>
   \<and> lower ''lunch at cafe'' = ''lunch at cafe''
   \<and> \<not> is_upper (CHR ''c'')
   \<and> (\<exists>tok \<in> set (split ''FOOD 250 Lunch At CAFE''). ''Food'' = title (lower tok))"
proof -
  have p: "parse_expense day0 ''FOOD 250 Lunch At CAFE'' =
     Inr \<lparr>exp_date = day0, exp_category = ''Food'', exp_amount = Finite 250,
          exp_description = ''lunch at cafe'', exp_payment_method = ''Cash''\<rparr>"
    by code_simp
  from stored_text_is_lowercased [OF p]
  have "(\<exists>tok \<in> set (split ''FOOD 250 Lunch At CAFE''). ''Food'' = title (lower tok))"
    and "lower ''lunch at cafe'' = ''lunch at cafe''"
    and "\<forall>c \<in> set ''lunch at cafe''. \<not> is_upper c"
    by simp_all
  then show ?thesis
    using p by simp
qed

section \<open>Balance and groupings\<close>





end
